theory Spec2Isabelle
  imports Complex_Main "HOL-Library.AList"
begin

section \<open>gen\_lp.py: an lp\_solve program for a FanDuel team\<close>

text \<open>
  The script \<^verbatim>\<open>src/fanduel-lpsolve/gen_lp.py\<close> (Python 2) reads player rows from a
  CSV file, groups them by position, drops the players below a minimum projection and
  prints a 0/1 linear program. The theory follows the script function by function:
  \<^verbatim>\<open>load_player_data\<close>, the filter loop of the main block, and \<^verbatim>\<open>write_lp_file\<close>
  with its local \<^verbatim>\<open>get_var_name\<close>.

  What is modelled how:
  \<^item> a \<^verbatim>\<open>PlayerDatum\<close> is a record; Python's \<^verbatim>\<open>str\<close> (a byte string) is \<open>string\<close>,
    its unbounded \<^verbatim>\<open>int\<close> is \<open>int\<close>;
  \<^item> a Python \<^verbatim>\<open>float\<close> is a \<open>real\<close>: products and comparisons are exact, there is no
    rounding, no infinity and no NaN. Every projection, jitter and draw used in a concrete
    example below is a dyadic rational that binary floating point represents and
    multiplies exactly; the threshold 2.718 is only compared with them;
  \<^item> the dictionary \<^verbatim>\<open>player_data\<close> is an association list with distinct keys, in the
    order in which the interpreter iterates over the dictionary
    (\<^verbatim>\<open>keys()\<close>, \<^verbatim>\<open>items()\<close>). Python 2 leaves that order to the implementation, so
    the order of the six keys of the dictionary literal is a parameter \<open>key_order\<close>;
  \<^item> the built-ins whose code is not part of the script are parameters: \<open>py_int\<close> and
    \<open>py_float\<close> are \<^verbatim>\<open>int(s)\<close> and \<^verbatim>\<open>float(s)\<close> on a string (\<open>None\<close> when they raise
    \<^verbatim>\<open>ValueError\<close>), \<open>py_str\<close> is the text that \<^verbatim>\<open>'%s'\<close> gives for a float;
  \<^item> \<^verbatim>\<open>random.random()\<close> is a parameter \<open>draws\<close>: \<open>draws i\<close> is the value of the
    \<open>i\<close>-th call made by \<^verbatim>\<open>write_lp_file\<close>, counted from 0;
  \<^item> a row is the dictionary that \<^verbatim>\<open>csv.DictReader\<close> yields for a line that has a field
    for every column of the header, so every value is a string;
  \<^item> an exception is a value of \<open>py_error\<close>; standard output is the list of the lines
    printed, each \<^verbatim>\<open>print\<close> statement giving one line.
\<close>

subsection \<open>Data\<close>

record PlayerDatum =
  name :: string
  position :: string
  salary :: int
  projection :: real

type_synonym roster = "(string \<times> PlayerDatum list) list"

type_synonym row = "string \<rightharpoonup> string"

datatype py_error = KeyError string | ValueError string

text \<open>What a run leaves behind: the lines printed, and the exception that ended it, if any.\<close>

type_synonym run = "string list \<times> py_error option"

subsection \<open>Built-ins of the interpreter\<close>

text \<open>
  \<^verbatim>\<open>str.isalpha\<close> on one byte, in the C locale the interpreter starts in: the ASCII letters.
\<close>

definition isalpha :: "char \<Rightarrow> bool" where
  "isalpha c =
     (let n = (of_char c :: nat) in (65 \<le> n \<and> n \<le> 90) \<or> (97 \<le> n \<and> n \<le> 122))"

text \<open>\<^verbatim>\<open>sep.join(xs)\<close>.\<close>

fun join :: "string \<Rightarrow> string list \<Rightarrow> string" where
  "join sep [] = []"
| "join sep [x] = x"
| "join sep (x # y # ys) = x @ sep @ join sep (y # ys)"

text \<open>\<^verbatim>\<open>'%s'\<close> of an integer: its decimal digits, with a minus sign when negative.\<close>

fun str_nat :: "nat \<Rightarrow> string" where
  "str_nat n =
     (if n < 10 then [''0123456789'' ! n]
      else str_nat (n div 10) @ [''0123456789'' ! (n mod 10)])"

declare str_nat.simps [simp del]

definition str_int :: "int \<Rightarrow> string" where
  "str_int i = (if i < 0 then CHR ''-'' # str_nat (nat (- i)) else str_nat (nat i))"

text \<open>
  \<^verbatim>\<open>random.uniform(a, b)\<close> of the standard library is
  \<^verbatim>\<open>a + (b-a) * self.random()\<close>; \<open>u\<close> is the value of that call of \<^verbatim>\<open>random()\<close>.
\<close>

definition uniform :: "real \<Rightarrow> real \<Rightarrow> real \<Rightarrow> real" where
  "uniform a b u = a + (b - a) * u"

subsection \<open>load\_player\_data\<close>

definition position_keys :: "string list" where
  "position_keys = [''QB'', ''RB'', ''WR'', ''TE'', ''K'', ''D'']"

text \<open>
  The dictionary literal of line 26: the six keys, each with an empty list, in the
  interpreter's iteration order \<open>key_order\<close>.
\<close>

definition empty_roster :: "string list \<Rightarrow> roster" where
  "empty_roster key_order = map (\<lambda>k. (k, [])) key_order"

text \<open>
  Lines 32 to 37: the keyword arguments are evaluated in the order written, so a missing
  column raises \<^verbatim>\<open>KeyError\<close> and an unparseable number \<^verbatim>\<open>ValueError\<close> at the first
  argument that fails.
\<close>

definition player_datum_of_row ::
  "(string \<Rightarrow> int option) \<Rightarrow> (string \<Rightarrow> real option) \<Rightarrow> row \<Rightarrow> py_error + PlayerDatum" where
  "player_datum_of_row py_int py_float r =
     (case r ''PLAYER'' of
        None \<Rightarrow> Inl (KeyError ''PLAYER'')
      | Some n \<Rightarrow>
     (case r ''POSITION'' of
        None \<Rightarrow> Inl (KeyError ''POSITION'')
      | Some pos \<Rightarrow>
     (case r ''SALARY'' of
        None \<Rightarrow> Inl (KeyError ''SALARY'')
      | Some s \<Rightarrow>
     (case py_int s of
        None \<Rightarrow> Inl (ValueError s)
      | Some sal \<Rightarrow>
     (case r ''PROJECTION'' of
        None \<Rightarrow> Inl (KeyError ''PROJECTION'')
      | Some q \<Rightarrow>
     (case py_float q of
        None \<Rightarrow> Inl (ValueError q)
      | Some proj \<Rightarrow>
          Inr \<lparr>name = n, position = pos, salary = sal, projection = proj\<rparr>))))))"

text \<open>
  Line 38, \<^verbatim>\<open>player_data[player_datum.position].append(player_datum)\<close>: the lookup has no
  default, so a position that is not a key raises \<^verbatim>\<open>KeyError\<close>.
\<close>

definition append_player :: "roster \<Rightarrow> PlayerDatum \<Rightarrow> py_error + roster" where
  "append_player player_data p =
     (case map_of player_data (position p) of
        None \<Rightarrow> Inl (KeyError (position p))
      | Some ps \<Rightarrow> Inr (AList.update (position p) (ps @ [p]) player_data))"

text \<open>The loop over the rows (lines 31 to 38); the first exception ends it.\<close>

fun load_rows ::
  "(string \<Rightarrow> int option) \<Rightarrow> (string \<Rightarrow> real option) \<Rightarrow> roster \<Rightarrow> row list \<Rightarrow> py_error + roster" where
  "load_rows py_int py_float player_data [] = Inr player_data"
| "load_rows py_int py_float player_data (r # rows) =
     (case player_datum_of_row py_int py_float r of
        Inl e \<Rightarrow> Inl e
      | Inr p \<Rightarrow>
         (case append_player player_data p of
            Inl e \<Rightarrow> Inl e
          | Inr player_data' \<Rightarrow> load_rows py_int py_float player_data' rows))"

definition load_player_data ::
  "(string \<Rightarrow> int option) \<Rightarrow> (string \<Rightarrow> real option) \<Rightarrow> string list \<Rightarrow> row list \<Rightarrow> py_error + roster" where
  "load_player_data py_int py_float key_order rows =
     load_rows py_int py_float (empty_roster key_order) rows"

subsection \<open>The filter loop of the main block\<close>

text \<open>
  Lines 90 and 91: for every key of \<^verbatim>\<open>player_data.keys()\<close>, the list stored under the key
  is replaced by \<^verbatim>\<open>filter(lambda p: p.projection >= min_player_proj, ...)\<close>.
\<close>

fun filter_loop :: "real \<Rightarrow> string list \<Rightarrow> roster \<Rightarrow> py_error + roster" where
  "filter_loop min_player_proj [] player_data = Inr player_data"
| "filter_loop min_player_proj (k # ks) player_data =
     (case map_of player_data k of
        None \<Rightarrow> Inl (KeyError k)
      | Some ps \<Rightarrow>
          filter_loop min_player_proj ks
            (AList.update k (filter (\<lambda>p. projection p \<ge> min_player_proj) ps) player_data))"

definition filter_step :: "real \<Rightarrow> roster \<Rightarrow> py_error + roster" where
  "filter_step min_player_proj player_data =
     filter_loop min_player_proj (map fst player_data) player_data"

subsection \<open>write\_lp\_file\<close>

definition get_var_name :: "PlayerDatum \<Rightarrow> string" where
  "get_var_name player = position player @ ''_'' @ filter isalpha (name player)"

text \<open>Lines 54 to 57: the players of all positions, in the order of \<^verbatim>\<open>items()\<close>.\<close>

definition all_players :: "roster \<Rightarrow> PlayerDatum list" where
  "all_players player_data = concat (map snd player_data)"

text \<open>
  The pairs that the list comprehension of line 60 formats: the coefficient
  \<^verbatim>\<open>p.projection * random.uniform(1.0-proj_jitter, 1.0+proj_jitter)\<close> and the variable
  name. The comprehension draws once per player, in the order of the list, so the player
  at index \<open>i\<close> gets the draw \<open>draws (start + i)\<close>.
\<close>

fun objective_terms :: "real \<Rightarrow> (nat \<Rightarrow> real) \<Rightarrow> nat \<Rightarrow> PlayerDatum list \<Rightarrow> (real \<times> string) list" where
  "objective_terms proj_jitter draws start [] = []"
| "objective_terms proj_jitter draws start (p # ps) =
     (projection p * uniform (1 - proj_jitter) (1 + proj_jitter) (draws start), get_var_name p)
       # objective_terms proj_jitter draws (Suc start) ps"

definition objective_line :: "(real \<Rightarrow> string) \<Rightarrow> (real \<times> string) list \<Rightarrow> string" where
  "objective_line py_str terms =
     ''max: '' @ join '' + '' (map (\<lambda>(c, v). py_str c @ '' '' @ v) terms) @ '';''"

text \<open>
  Lines 63 to 68: the six position constraints. \<open>label\<close> is the text before the sum and
  \<open>rhs\<close> the text after it, both literals of the format string; the lookup
  \<^verbatim>\<open>player_data['QB']\<close> is evaluated before the line is printed.
\<close>

definition position_line :: "string \<Rightarrow> string \<Rightarrow> PlayerDatum list \<Rightarrow> string" where
  "position_line label rhs ps = label @ '': '' @ join '' + '' (map get_var_name ps) @ '' = '' @ rhs @ '';''"

definition position_stmt :: "string \<Rightarrow> string \<Rightarrow> string \<Rightarrow> roster \<Rightarrow> py_error + string" where
  "position_stmt label k rhs player_data =
     (case map_of player_data k of
        None \<Rightarrow> Inl (KeyError k)
      | Some ps \<Rightarrow> Inr (position_line label rhs ps))"

definition salary_line :: "PlayerDatum list \<Rightarrow> int \<Rightarrow> string" where
  "salary_line ps salary_cap =
     ''sal_lim: '' @ join '' + '' (map (\<lambda>p. str_int (salary p) @ '' '' @ get_var_name p) ps)
       @ '' <= '' @ str_int salary_cap @ '';''"

definition bin_line :: "string list \<Rightarrow> string" where
  "bin_line vars = ''bin '' @ join '' '' vars @ '';''"

text \<open>
  The \<^verbatim>\<open>print\<close> statements run one after the other: a statement whose expression raises
  prints nothing and ends the run, the lines before it stay printed.
\<close>

fun print_all :: "(py_error + string) list \<Rightarrow> run" where
  "print_all [] = ([], None)"
| "print_all (Inl e # stmts) = ([], Some e)"
| "print_all (Inr l # stmts) = (l # fst (print_all stmts), snd (print_all stmts))"

definition write_lp_file :: "(real \<Rightarrow> string) \<Rightarrow> roster \<Rightarrow> int \<Rightarrow> real \<Rightarrow> (nat \<Rightarrow> real) \<Rightarrow> run" where
  "write_lp_file py_str player_data salary_cap proj_jitter draws =
     print_all
       [Inr (objective_line py_str (objective_terms proj_jitter draws 0 (all_players player_data))),
        position_stmt ''qb_lim'' ''QB'' ''1'' player_data,
        position_stmt ''rb_lim'' ''RB'' ''2'' player_data,
        position_stmt ''wr_lim'' ''WR'' ''3'' player_data,
        position_stmt ''te_lim'' ''TE'' ''1'' player_data,
        position_stmt ''k_lim'' ''K'' ''1'' player_data,
        position_stmt ''d_lim'' ''D'' ''1'' player_data,
        Inr (salary_line (all_players player_data) salary_cap),
        Inr (bin_line (map get_var_name (all_players player_data)))]"

subsection \<open>The main block\<close>

text \<open>
  Lines 87 to 94, with the parsed command line as arguments: load, filter, write. An
  exception of the loader ends the run before anything is printed.
\<close>

definition main ::
  "(string \<Rightarrow> int option) \<Rightarrow> (string \<Rightarrow> real option) \<Rightarrow> (real \<Rightarrow> string) \<Rightarrow> string list \<Rightarrow>
     row list \<Rightarrow> int \<Rightarrow> real \<Rightarrow> real \<Rightarrow> (nat \<Rightarrow> real) \<Rightarrow> run" where
  "main py_int py_float py_str key_order rows salary_cap min_player_proj proj_jitter draws =
     (case load_player_data py_int py_float key_order rows of
        Inl e \<Rightarrow> ([], Some e)
      | Inr player_data \<Rightarrow>
         (case filter_step min_player_proj player_data of
            Inl e \<Rightarrow> ([], Some e)
          | Inr player_data' \<Rightarrow>
              write_lp_file py_str player_data' salary_cap proj_jitter draws))"

subsection \<open>Reading a printed declaration\<close>

text \<open>
  The two functions of this subsection are not part of the script: they read a printed
  statement back, to say which variable names the text of a declaration lists.
  \<open>split_words\<close> gives the words of a text, the maximal runs of characters other than
  the space. \<open>declared_names\<close> takes a statement that ends with \<^verbatim>\<open>;\<close> and whose first
  word is the keyword \<^verbatim>\<open>bin\<close>, and returns the words after the keyword.
\<close>

function split_words :: "string \<Rightarrow> string list" where
  "split_words [] = []"
| "split_words (c # cs) =
     (if c = CHR '' '' then split_words cs
      else (c # takeWhile (\<lambda>x. x \<noteq> CHR '' '') cs)
             # split_words (dropWhile (\<lambda>x. x \<noteq> CHR '' '') cs))"
  by pat_completeness auto
termination
  by (relation "measure length") (auto simp: length_dropWhile_le less_Suc_eq_le)

definition declared_names :: "string \<Rightarrow> string list option" where
  "declared_names stmt =
     (if stmt \<noteq> [] \<and> last stmt = CHR '';'' then
        (case split_words (butlast stmt) of
           [] \<Rightarrow> None
         | kw # names \<Rightarrow> if kw = ''bin'' then Some names else None)
      else None)"

subsection \<open>Values of the built-ins on the examples\<close>

text \<open>
  The theorems below hold for every \<open>py_int\<close>, \<open>py_float\<close>, \<open>py_str\<close>, \<open>key_order\<close> and
  \<open>draws\<close>. The concrete examples need values for them: the tables give what CPython 2.7
  returns on the strings and numbers that the examples use (and only on those), every
  draw of \<^verbatim>\<open>random()\<close> is one half, and the six keys are taken in the order of the
  dictionary literal.
\<close>

definition sample_int :: "string \<Rightarrow> int option" where
  "sample_int = map_of [(''5000'', 5000), (''7000'', 7000)]"

definition sample_float :: "string \<Rightarrow> real option" where
  "sample_float = map_of [(''20.0'', 20), (''1.5'', 3 / 2)]"

definition sample_str :: "real \<Rightarrow> string" where
  "sample_str x =
     (if x = 20 then ''20.0'' else if x = 3 / 2 then ''1.5'' else ''?'')"

definition sample_draws :: "nat \<Rightarrow> real" where
  "sample_draws i = 1 / 2"

section \<open>Properties\<close>

subsection \<open>Evaluating the built-ins\<close>

lemma str_nat_digit: "n < 10 \<Longrightarrow> str_nat n = [''0123456789'' ! n]"
  by (simp add: str_nat.simps)

lemma str_nat_more:
  "\<not> n < 10 \<Longrightarrow> str_nat n = str_nat (n div 10) @ [''0123456789'' ! (n mod 10)]"
  by (subst str_nat.simps) simp

subsection \<open>The loader\<close>

lemma player_datum_of_row_position:
  "player_datum_of_row py_int py_float r = Inr p \<Longrightarrow> r ''POSITION'' = Some (position p)"
  by (auto simp: player_datum_of_row_def split: option.splits)

lemma map_of_Some_key: "map_of xs k = Some v \<Longrightarrow> k \<in> fst ` set xs"
  by (force dest: map_of_SomeD)

lemma append_player_keys:
  assumes "append_player player_data p = Inr player_data'"
  shows "map fst player_data' = map fst player_data"
proof (cases "map_of player_data (position p)")
  case None
  with assms show ?thesis by (simp add: append_player_def)
next
  case (Some ps)
  then have "position p \<in> fst ` set player_data" by (rule map_of_Some_key)
  moreover from assms Some have "player_data' = AList.update (position p) (ps @ [p]) player_data"
    by (simp add: append_player_def)
  ultimately show ?thesis by (simp add: update_keys)
qed

lemma append_player_unknown:
  assumes "position p \<notin> fst ` set player_data"
  shows "append_player player_data p = Inl (KeyError (position p))"
proof -
  from assms have "map_of player_data (position p) = None"
    by (simp add: map_of_eq_None_iff)
  then show ?thesis by (simp add: append_player_def)
qed

lemma load_rows_unknown:
  assumes "r \<in> set rows" and "r ''POSITION'' = Some pos" and "pos \<notin> fst ` set player_data"
  shows "\<exists>e. load_rows py_int py_float player_data rows = Inl e"
  using assms
proof (induction rows arbitrary: player_data)
  case Nil
  then show ?case by simp
next
  case (Cons x rows)
  show ?case
  proof (cases "player_datum_of_row py_int py_float x")
    case (Inl e)
    then show ?thesis by simp
  next
    case (Inr p)
    show ?thesis
    proof (cases "append_player player_data p")
      case (Inl e)
      with Inr show ?thesis by simp
    next
      case app: (Inr player_data')
      have keys: "fst ` set player_data' = fst ` set player_data"
        using append_player_keys [OF app] by (metis list.set_map)
      have "x \<noteq> r"
      proof
        assume "x = r"
        with Inr Cons.prems(2) have "position p = pos"
          by (auto dest: player_datum_of_row_position)
        with Cons.prems(3) have "append_player player_data p = Inl (KeyError (position p))"
          by (simp add: append_player_unknown)
        with app show False by simp
      qed
      with Cons.prems(1) have "r \<in> set rows" by auto
      from Cons.IH [OF this Cons.prems(2)] Cons.prems(3) keys
      have "\<exists>e. load_rows py_int py_float player_data' rows = Inl e" by simp
      with Inr app show ?thesis by simp
    qed
  qed
qed

lemma load_rows_append:
  "load_rows py_int py_float player_data (xs @ ys)
     = (case load_rows py_int py_float player_data xs of
          Inl e \<Rightarrow> Inl e
        | Inr player_data' \<Rightarrow> load_rows py_int py_float player_data' ys)"
  by (induction xs arbitrary: player_data) (auto split: sum.splits)

lemma load_rows_keys:
  "load_rows py_int py_float player_data rows = Inr player_data' \<Longrightarrow>
   map fst player_data' = map fst player_data"
proof (induction rows arbitrary: player_data)
  case Nil
  then show ?case by simp
next
  case (Cons x rows)
  then show ?case
    by (auto split: sum.splits dest: append_player_keys)
qed

lemma load_player_data_key_error:
  assumes "set key_order = set position_keys"
    and "load_player_data py_int py_float key_order before = Inr player_data"
    and "player_datum_of_row py_int py_float r = Inr p"
    and "position p \<notin> set position_keys"
  shows "load_player_data py_int py_float key_order (before @ r # after)
     = Inl (KeyError (position p))"
proof -
  have "map fst player_data = map fst (empty_roster key_order)"
    using assms(2) unfolding load_player_data_def by (rule load_rows_keys)
  then have "map fst player_data = key_order"
    by (simp add: empty_roster_def comp_def)
  then have "fst ` set player_data = set position_keys"
    using assms(1) by (metis list.set_map)
  with assms(4) have "append_player player_data p = Inl (KeyError (position p))"
    by (simp add: append_player_unknown)
  with assms(2,3) show ?thesis
    by (simp add: load_player_data_def load_rows_append)
qed

text \<open>
  C5. When some row of the file has a position code that is not one of the six keys, the
  loader raises an exception and returns no roster, so the row is neither dropped nor
  stored, and the run of the main block ends with that exception before anything is
  printed. (Lemma \<open>load_player_data_key_error\<close> above names the exception when the rows
  before load and the row itself parses: it is the \<^verbatim>\<open>KeyError\<close> of the lookup of line 38.)
\<close>

theorem unknown_position_raises:
  assumes "set key_order = set position_keys"
    and "r \<in> set rows" and "r ''POSITION'' = Some pos" and "pos \<notin> set position_keys"
  shows "\<exists>e. load_player_data py_int py_float key_order rows = Inl e
    \<and> main py_int py_float py_str key_order rows salary_cap min_player_proj proj_jitter draws
        = ([], Some e)"
proof -
  have "fst ` set (empty_roster key_order) = set position_keys"
    using assms(1) by (simp add: empty_roster_def image_image)
  with assms(4) have "pos \<notin> fst ` set (empty_roster key_order)" by simp
  with assms(2,3) obtain e where "load_rows py_int py_float (empty_roster key_order) rows = Inl e"
    using load_rows_unknown by blast
  then show ?thesis by (simp add: main_def load_player_data_def)
qed

theorem unknown_position_raises_witness:
  "load_player_data sample_int sample_float position_keys
     [[''PLAYER'' \<mapsto> ''Tom Brady'', ''POSITION'' \<mapsto> ''QB'', ''SALARY'' \<mapsto> ''7000'',
       ''PROJECTION'' \<mapsto> ''20.0''],
      [''PLAYER'' \<mapsto> ''Cam Newton'', ''POSITION'' \<mapsto> ''LB'', ''SALARY'' \<mapsto> ''5000'',
       ''PROJECTION'' \<mapsto> ''20.0'']] = Inl (KeyError ''LB'')
   \<and> main sample_int sample_float sample_str position_keys
     [[''PLAYER'' \<mapsto> ''Tom Brady'', ''POSITION'' \<mapsto> ''QB'', ''SALARY'' \<mapsto> ''7000'',
       ''PROJECTION'' \<mapsto> ''20.0''],
      [''PLAYER'' \<mapsto> ''Cam Newton'', ''POSITION'' \<mapsto> ''LB'', ''SALARY'' \<mapsto> ''5000'',
       ''PROJECTION'' \<mapsto> ''20.0'']]
     60000 (2718 / 1000) 0 sample_draws = ([], Some (KeyError ''LB''))"
proof -
  let ?bad = "[''PLAYER'' \<mapsto> ''Cam Newton'', ''POSITION'' \<mapsto> ''LB'', ''SALARY'' \<mapsto> ''5000'',
       ''PROJECTION'' \<mapsto> ''20.0'']"
  let ?rows = "[[''PLAYER'' \<mapsto> ''Tom Brady'', ''POSITION'' \<mapsto> ''QB'', ''SALARY'' \<mapsto> ''7000'',
       ''PROJECTION'' \<mapsto> ''20.0''], ?bad]"
  have keys: "set position_keys = set position_keys" by simp
  have mem: "?bad \<in> set ?rows" by simp
  have pos: "?bad ''POSITION'' = Some ''LB''" by simp
  have unknown: "''LB'' \<notin> set position_keys" by (simp add: position_keys_def)
  have val: "load_player_data sample_int sample_float position_keys ?rows = Inl (KeyError ''LB'')"
    by (simp add: load_player_data_def empty_roster_def position_keys_def
        player_datum_of_row_def append_player_def sample_int_def sample_float_def)
  from unknown_position_raises [OF keys mem pos unknown, of sample_int sample_float sample_str
      60000 "2718 / 1000" 0 sample_draws] val
  show ?thesis by auto
qed

subsection \<open>The filter loop\<close>

text \<open>
  The loop invariant: when the keys still to visit are those of \<open>ys\<close>, the entries before
  them (\<open>xs\<close>) are filtered already and the entries of \<open>ys\<close> are untouched. The keys are
  distinct, so each lookup finds its own entry and each update replaces it in place.
\<close>

lemma map_of_append_fresh:
  "k \<notin> fst ` set xs \<Longrightarrow> map_of (xs @ (k, v) # ys) k = Some v"
  by (induction xs) auto

lemma update_append_fresh:
  "k \<notin> fst ` set xs \<Longrightarrow> AList.update k w (xs @ (k, v) # ys) = xs @ (k, w) # ys"
  by (induction xs) auto

lemma filter_loop_append:
  "distinct (map fst (xs @ ys)) \<Longrightarrow>
   filter_loop t (map fst ys) (map (\<lambda>(k, ps). (k, filter (\<lambda>p. projection p \<ge> t) ps)) xs @ ys)
     = Inr (map (\<lambda>(k, ps). (k, filter (\<lambda>p. projection p \<ge> t) ps)) (xs @ ys))"
proof (induction ys arbitrary: xs)
  case Nil
  then show ?case by simp
next
  case (Cons y ys)
  obtain k ps where y: "y = (k, ps)" by (cases y)
  let ?F = "\<lambda>(k, ps). (k, filter (\<lambda>p. projection p \<ge> t) ps)"
  from Cons.prems y have fresh: "k \<notin> fst ` set (map ?F xs)"
    by (auto simp: image_iff)
  from Cons.prems y have d: "distinct (map fst ((xs @ [(k, ps)]) @ ys))"
    by simp
  have look: "map_of (map ?F xs @ (k, ps) # ys) k = Some ps"
    using fresh by (rule map_of_append_fresh)
  have upd: "AList.update k (filter (\<lambda>p. projection p \<ge> t) ps) (map ?F xs @ (k, ps) # ys)
      = map ?F xs @ (k, filter (\<lambda>p. projection p \<ge> t) ps) # ys"
    using fresh by (rule update_append_fresh)
  have "filter_loop t (map fst (y # ys)) (map ?F xs @ y # ys)
      = filter_loop t (map fst ys) (map ?F xs @ (k, filter (\<lambda>p. projection p \<ge> t) ps) # ys)"
    by (simp add: y look upd del: map_of_append)
  also have "\<dots> = filter_loop t (map fst ys) (map ?F (xs @ [(k, ps)]) @ ys)"
    by simp
  also have "\<dots> = Inr (map ?F ((xs @ [(k, ps)]) @ ys))"
    by (rule Cons.IH [OF d])
  finally show ?case by (simp add: y)
qed

lemma filter_loop_all:
  assumes "distinct (map fst player_data)"
  shows "filter_loop t (map fst player_data) player_data
    = Inr (map (\<lambda>(k, ps). (k, filter (\<lambda>p. projection p \<ge> t) ps)) player_data)"
  using filter_loop_append [of "[]" player_data t] assms by simp

lemma keys_filtered:
  "map fst (map (\<lambda>(k, ps). (k, filter (\<lambda>p. projection p \<ge> t) ps)) player_data)
     = map fst player_data"
  by (induction player_data) auto

lemma filtered_twice:
  "map (\<lambda>(k, ps). (k, filter (\<lambda>p. projection p \<ge> t) ps))
     (map (\<lambda>(k, ps). (k, filter (\<lambda>p. projection p \<ge> t) ps)) player_data)
   = map (\<lambda>(k, ps). (k, filter (\<lambda>p. projection p \<ge> t) ps)) player_data"
  by (induction player_data) auto

text \<open>
  C6. For every roster (a dictionary, so its keys are distinct) and every threshold \<open>t\<close>,
  the filter loop raises nothing and returns the roster with the same keys in the same
  order, each position's list holding exactly the records of the input list whose
  projection is at least \<open>t\<close>, in the order of the input list.
\<close>

theorem filter_step_retains:
  assumes "distinct (map fst player_data)"
  shows "filter_step t player_data
    = Inr (map (\<lambda>(k, ps). (k, filter (\<lambda>p. projection p \<ge> t) ps)) player_data)"
  unfolding filter_step_def using assms by (rule filter_loop_all)

theorem filter_step_retains_witness:
  "distinct (map fst
     [(''QB'', []),
      (''WR'', [\<lparr>name = ''A'', position = ''WR'', salary = 5000, projection = 20\<rparr>,
               \<lparr>name = ''B'', position = ''WR'', salary = 7000, projection = 3 / 2\<rparr>,
               \<lparr>name = ''C'', position = ''WR'', salary = 7000, projection = 3\<rparr>])])
   \<and> filter_step (2718 / 1000)
     [(''QB'', []),
      (''WR'', [\<lparr>name = ''A'', position = ''WR'', salary = 5000, projection = 20\<rparr>,
               \<lparr>name = ''B'', position = ''WR'', salary = 7000, projection = 3 / 2\<rparr>,
               \<lparr>name = ''C'', position = ''WR'', salary = 7000, projection = 3\<rparr>])]
   = Inr
     [(''QB'', []),
      (''WR'', [\<lparr>name = ''A'', position = ''WR'', salary = 5000, projection = 20\<rparr>,
               \<lparr>name = ''C'', position = ''WR'', salary = 7000, projection = 3\<rparr>])]"
  using filter_step_retains [of
     "[(''QB'', []),
      (''WR'', [\<lparr>name = ''A'', position = ''WR'', salary = 5000, projection = 20\<rparr>,
               \<lparr>name = ''B'', position = ''WR'', salary = 7000, projection = 3 / 2\<rparr>,
               \<lparr>name = ''C'', position = ''WR'', salary = 7000, projection = 3\<rparr>])]"
     "2718 / 1000"]
  by simp

text \<open>
  C7. Filtering is idempotent: for every roster and every threshold \<open>t\<close>, the filter loop
  returns a roster, and the filter loop at \<open>t\<close> on that roster returns the same roster.
\<close>

theorem filter_step_idempotent:
  assumes "distinct (map fst player_data)"
  shows "\<exists>filtered. filter_step t player_data = Inr filtered \<and> filter_step t filtered = Inr filtered"
proof -
  let ?pd' = "map (\<lambda>(k, ps). (k, filter (\<lambda>p. projection p \<ge> t) ps)) player_data"
  have once: "filter_step t player_data = Inr ?pd'"
    unfolding filter_step_def using assms by (rule filter_loop_all)
  have "distinct (map fst ?pd')"
    unfolding keys_filtered by (rule assms)
  then have "filter_step t ?pd' = Inr (map (\<lambda>(k, ps). (k, filter (\<lambda>p. projection p \<ge> t) ps)) ?pd')"
    unfolding filter_step_def by (rule filter_loop_all)
  then have "filter_step t ?pd' = Inr ?pd'"
    unfolding filtered_twice .
  with once show ?thesis by blast
qed

theorem filter_step_idempotent_witness:
  "distinct (map fst
     [(''K'', [\<lparr>name = ''A'', position = ''K'', salary = 5000, projection = 3 / 2\<rparr>,
              \<lparr>name = ''B'', position = ''K'', salary = 7000, projection = 20\<rparr>]),
      (''D'', [])])
   \<and> (\<exists>filtered.
        filter_step (2718 / 1000)
          [(''K'', [\<lparr>name = ''A'', position = ''K'', salary = 5000, projection = 3 / 2\<rparr>,
                   \<lparr>name = ''B'', position = ''K'', salary = 7000, projection = 20\<rparr>]),
           (''D'', [])] = Inr filtered
        \<and> filter_step (2718 / 1000) filtered = Inr filtered)"
  using filter_step_idempotent [of
     "[(''K'', [\<lparr>name = ''A'', position = ''K'', salary = 5000, projection = 3 / 2\<rparr>,
               \<lparr>name = ''B'', position = ''K'', salary = 7000, projection = 20\<rparr>]),
       (''D'', [])]"
     "2718 / 1000"]
  by simp

subsection \<open>The statements printed by write\_lp\_file\<close>

lemma write_lp_file_lines:
  assumes "map_of player_data ''QB'' = Some qb" and "map_of player_data ''RB'' = Some rb"
    and "map_of player_data ''WR'' = Some wr" and "map_of player_data ''TE'' = Some te"
    and "map_of player_data ''K'' = Some k" and "map_of player_data ''D'' = Some d"
  shows "write_lp_file py_str player_data salary_cap proj_jitter draws =
    ([objective_line py_str (objective_terms proj_jitter draws 0 (all_players player_data)),
      position_line ''qb_lim'' ''1'' qb,
      position_line ''rb_lim'' ''2'' rb,
      position_line ''wr_lim'' ''3'' wr,
      position_line ''te_lim'' ''1'' te,
      position_line ''k_lim'' ''1'' k,
      position_line ''d_lim'' ''1'' d,
      salary_line (all_players player_data) salary_cap,
      bin_line (map get_var_name (all_players player_data))], None)"
  by (simp add: write_lp_file_def position_stmt_def assms)

lemma length_objective_terms: "length (objective_terms j draws n ps) = length ps"
  by (induction ps arbitrary: n) auto

lemma objective_terms_nth:
  "i < length ps \<Longrightarrow>
   objective_terms j draws n ps ! i
     = (projection (ps ! i) * uniform (1 - j) (1 + j) (draws (n + i)), get_var_name (ps ! i))"
proof (induction ps arbitrary: n i)
  case Nil
  then show ?case by simp
next
  case (Cons p ps)
  then show ?case by (cases i) auto
qed

lemma objective_terms_no_jitter:
  "objective_terms 0 draws n ps = map (\<lambda>p. (projection p, get_var_name p)) ps"
  by (induction ps arbitrary: n) (auto simp: uniform_def)

lemma uniform_bounds:
  assumes "0 \<le> j" and "0 \<le> u" and "u \<le> 1"
  shows "1 - j \<le> uniform (1 - j) (1 + j) u" and "uniform (1 - j) (1 + j) u \<le> 1 + j"
proof -
  have eq: "uniform (1 - j) (1 + j) u = 1 - j + 2 * j * u"
    by (simp add: uniform_def algebra_simps)
  have "0 \<le> 2 * j * u" using assms by simp
  then show "1 - j \<le> uniform (1 - j) (1 + j) u" by (simp add: eq)
  have "2 * j * u \<le> 2 * j * 1" using assms by (intro mult_left_mono) auto
  then show "uniform (1 - j) (1 + j) u \<le> 1 + j" by (simp add: eq)
qed

lemma count_list_map_two:
  assumes "p \<in> set xs" and "q \<in> set xs" and "p \<noteq> q" and "f p = f q"
  shows "2 \<le> count_list (map f xs) (f p)"
  using assms
proof (induction xs)
  case Nil
  then show ?case by simp
next
  case (Cons x xs)
  have one: "y \<in> set ys \<Longrightarrow> 1 \<le> count_list (map f ys) (f y)" for y ys
    by (induction ys) auto
  show ?case
  proof (cases "x = p")
    case True
    with Cons.prems have "q \<in> set xs" by auto
    from one [OF this] Cons.prems True show ?thesis by simp
  next
    case False
    show ?thesis
    proof (cases "x = q")
      case True
      with Cons.prems have "p \<in> set xs" by auto
      from one [OF this] Cons.prems True show ?thesis by simp
    next
      case nq: False
      with False Cons show ?thesis by auto
    qed
  qed
qed

lemma all_players_filtered:
  "all_players (map (\<lambda>(k, ps). (k, filter P ps)) player_data) = filter P (all_players player_data)"
  by (induction player_data) (auto simp: all_players_def)

lemma length_all_players:
  "length (filter P (all_players player_data))
     = sum_list (map (\<lambda>e. length (filter P (snd e))) player_data)"
  by (induction player_data) (auto simp: all_players_def)

lemma roster_entries:
  assumes "distinct (map fst player_data)" and "set (map fst player_data) = set position_keys"
    and "map_of player_data ''QB'' = Some qb" and "map_of player_data ''RB'' = Some rb"
    and "map_of player_data ''WR'' = Some wr" and "map_of player_data ''TE'' = Some te"
    and "map_of player_data ''K'' = Some k" and "map_of player_data ''D'' = Some d"
  shows "set player_data
     = {(''QB'', qb), (''RB'', rb), (''WR'', wr), (''TE'', te), (''K'', k), (''D'', d)}"
proof
  show "set player_data \<subseteq> {(''QB'', qb), (''RB'', rb), (''WR'', wr), (''TE'', te), (''K'', k), (''D'', d)}"
  proof
    fix e assume e: "e \<in> set player_data"
    obtain a v where av: "e = (a, v)" by (cases e)
    from e av have "a \<in> set (map fst player_data)" by force
    then have "a \<in> set position_keys" using assms(2) by simp
    then have a: "a = ''QB'' \<or> a = ''RB'' \<or> a = ''WR'' \<or> a = ''TE'' \<or> a = ''K'' \<or> a = ''D''"
      by (simp add: position_keys_def)
    from e av assms(1) have m: "map_of player_data a = Some v" by simp
    from a m assms(3-8) have "e = (''QB'', qb) \<or> e = (''RB'', rb) \<or> e = (''WR'', wr)
        \<or> e = (''TE'', te) \<or> e = (''K'', k) \<or> e = (''D'', d)"
      unfolding av by (elim disjE) simp_all
    then show "e \<in> {(''QB'', qb), (''RB'', rb), (''WR'', wr), (''TE'', te), (''K'', k), (''D'', d)}"
      by blast
  qed
  have "(''QB'', qb) \<in> set player_data" using assms(3) by (rule map_of_SomeD)
  moreover have "(''RB'', rb) \<in> set player_data" using assms(4) by (rule map_of_SomeD)
  moreover have "(''WR'', wr) \<in> set player_data" using assms(5) by (rule map_of_SomeD)
  moreover have "(''TE'', te) \<in> set player_data" using assms(6) by (rule map_of_SomeD)
  moreover have "(''K'', k) \<in> set player_data" using assms(7) by (rule map_of_SomeD)
  moreover have "(''D'', d) \<in> set player_data" using assms(8) by (rule map_of_SomeD)
  ultimately show "{(''QB'', qb), (''RB'', rb), (''WR'', wr), (''TE'', te), (''K'', k), (''D'', d)} \<subseteq> set player_data"
    by blast
qed

lemma survivors_six:
  assumes "distinct (map fst player_data)" and "set (map fst player_data) = set position_keys"
    and "map_of player_data ''QB'' = Some qb" and "map_of player_data ''RB'' = Some rb"
    and "map_of player_data ''WR'' = Some wr" and "map_of player_data ''TE'' = Some te"
    and "map_of player_data ''K'' = Some k" and "map_of player_data ''D'' = Some d"
  shows "length (filter P (all_players player_data))
     = length (filter P qb) + length (filter P rb) + length (filter P wr)
       + length (filter P te) + length (filter P k) + length (filter P d)"
proof -
  have d: "distinct player_data" using assms(1) by (simp add: distinct_map)
  have "length (filter P (all_players player_data))
      = sum (\<lambda>e. length (filter P (snd e))) (set player_data)"
    unfolding length_all_players using d by (rule sum_list_distinct_conv_sum_set)
  also have "\<dots> = length (filter P qb) + length (filter P rb) + length (filter P wr)
       + length (filter P te) + length (filter P k) + length (filter P d)"
    unfolding roster_entries [OF assms] by simp
  finally show ?thesis .
qed

subsection \<open>Reading the declaration back\<close>

lemma split_words_word:
  assumes "w \<noteq> []" and "CHR '' '' \<notin> set w"
  shows "split_words (w @ CHR '' '' # rest) = w # split_words rest"
proof -
  from assms(1) obtain c w' where w: "w = c # w'" by (cases w) auto
  with assms(2) have c: "c \<noteq> CHR '' ''" and w': "\<forall>x\<in>set w'. x \<noteq> CHR '' ''" by auto
  have t: "takeWhile (\<lambda>x. x \<noteq> CHR '' '') (w' @ CHR '' '' # rest) = w'"
    using w' by (simp add: takeWhile_tail)
  have d: "dropWhile (\<lambda>x. x \<noteq> CHR '' '') (w' @ CHR '' '' # rest) = CHR '' '' # rest"
    using w' by (simp add: dropWhile_append3)
  show ?thesis using c by (simp add: w t d)
qed

lemma split_words_last:
  assumes "w \<noteq> []" and "CHR '' '' \<notin> set w"
  shows "split_words w = [w]"
proof -
  from assms(1) obtain c w' where w: "w = c # w'" by (cases w) auto
  with assms(2) have c: "c \<noteq> CHR '' ''" and w': "\<forall>x\<in>set w'. x \<noteq> CHR '' ''" by auto
  from w' have t: "takeWhile (\<lambda>x. x \<noteq> CHR '' '') w' = w'"
    and d: "dropWhile (\<lambda>x. x \<noteq> CHR '' '') w' = []"
    by simp_all
  show ?thesis using c by (simp add: w t d)
qed

lemma split_words_join:
  assumes "\<forall>w\<in>set ws. w \<noteq> [] \<and> CHR '' '' \<notin> set w"
  shows "split_words (join '' '' ws) = ws"
  using assms
proof (induction "'' ''" ws rule: join.induct)
  case 1
  then show ?case by simp
next
  case (2 x)
  then show ?case by (simp add: split_words_last)
next
  case (3 x y ys)
  then have "split_words (x @ CHR '' '' # join '' '' (y # ys)) = x # split_words (join '' '' (y # ys))"
    by (intro split_words_word) auto
  with 3 show ?case by simp
qed

lemma get_var_name_word:
  assumes "position p \<in> set position_keys"
  shows "get_var_name p \<noteq> [] \<and> CHR '' '' \<notin> set (get_var_name p)"
  using assms by (auto simp: get_var_name_def position_keys_def isalpha_def)

lemma declared_names_bin_line:
  assumes "\<forall>p\<in>set ps. position p \<in> set position_keys"
  shows "declared_names (bin_line (map get_var_name ps)) = Some (map get_var_name ps)"
proof -
  let ?ns = "map get_var_name ps"
  have ws: "\<forall>w\<in>set ?ns. w \<noteq> [] \<and> CHR '' '' \<notin> set w"
    using assms get_var_name_word by auto
  have "butlast (bin_line ?ns) = ''bin'' @ CHR '' '' # join '' '' ?ns"
    by (simp add: bin_line_def butlast_append)
  moreover have "split_words (''bin'' @ CHR '' '' # join '' '' ?ns) = ''bin'' # split_words (join '' '' ?ns)"
    by (rule split_words_word) simp_all
  ultimately have "split_words (butlast (bin_line ?ns)) = ''bin'' # ?ns"
    using split_words_join [OF ws] by simp
  moreover have "bin_line ?ns \<noteq> [] \<and> last (bin_line ?ns) = CHR '';''"
    by (simp add: bin_line_def)
  ultimately show ?thesis by (simp add: declared_names_def)
qed

text \<open>
  The rosters that the loader returns hold only players whose position is one of the
  six keys, so the variable names of their players are words.
\<close>

lemma all_players_Cons: "all_players ((k, ps) # player_data) = ps @ all_players player_data"
  by (simp add: all_players_def)

lemma all_players_update:
  "map_of player_data k = Some ps \<Longrightarrow>
   set (all_players (AList.update k (ps @ [p]) player_data))
     \<subseteq> insert p (set (all_players player_data))"
proof (induction player_data)
  case Nil
  then show ?case by simp
next
  case (Cons e player_data)
  obtain a v where e: "e = (a, v)" by (cases e)
  show ?case
  proof (cases "a = k")
    case True
    with Cons.prems e show ?thesis by (auto simp: all_players_Cons)
  next
    case False
    with Cons.prems e have "map_of player_data k = Some ps" by simp
    from Cons.IH [OF this] False e show ?thesis
      by (auto simp: all_players_Cons)
  qed
qed

lemma load_rows_positions:
  assumes "load_rows py_int py_float player_data rows = Inr player_data'"
    and "\<forall>p\<in>set (all_players player_data). position p \<in> fst ` set player_data"
  shows "\<forall>p\<in>set (all_players player_data'). position p \<in> fst ` set player_data"
  using assms
proof (induction rows arbitrary: player_data)
  case Nil
  then show ?case by simp
next
  case (Cons r rows)
  from Cons.prems(1) obtain p mid where p: "player_datum_of_row py_int py_float r = Inr p"
    and mid: "append_player player_data p = Inr mid"
    and rest: "load_rows py_int py_float mid rows = Inr player_data'"
    by (auto split: sum.splits)
  from mid obtain ps where look: "map_of player_data (position p) = Some ps"
    and upd: "mid = AList.update (position p) (ps @ [p]) player_data"
    by (auto simp: append_player_def split: option.splits)
  have keys: "fst ` set mid = fst ` set player_data"
    using append_player_keys [OF mid] by (metis list.set_map)
  have new: "position p \<in> fst ` set player_data"
    using look by (rule map_of_Some_key)
  have "set (all_players mid) \<subseteq> insert p (set (all_players player_data))"
    unfolding upd using look by (rule all_players_update)
  with Cons.prems(2) new have "\<forall>q\<in>set (all_players mid). position q \<in> fst ` set mid"
    unfolding keys by auto
  from Cons.IH [OF rest this] keys show ?case by simp
qed

lemma load_player_data_positions:
  assumes "set key_order = set position_keys"
    and "load_player_data py_int py_float key_order rows = Inr player_data"
  shows "\<forall>p\<in>set (all_players player_data). position p \<in> set position_keys"
proof -
  have keys: "fst ` set (empty_roster key_order) = set position_keys"
    using assms(1) by (simp add: empty_roster_def image_image)
  have "\<forall>p\<in>set (all_players (empty_roster key_order)).
      position p \<in> fst ` set (empty_roster key_order)"
    by (simp add: all_players_def empty_roster_def)
  with assms(2) have "\<forall>p\<in>set (all_players player_data).
      position p \<in> fst ` set (empty_roster key_order)"
    unfolding load_player_data_def by (rule load_rows_positions)
  then show ?thesis unfolding keys .
qed


subsection \<open>The claims about write\_lp\_file\<close>

text \<open>
  C8. For every roster that has the six position keys, whatever lists they hold,
  \<^verbatim>\<open>write_lp_file\<close> raises nothing and prints nine statements: the objective, then the
  constraints of QB, RB, WR, TE, K and D in that order, whose right-hand sides are the
  literals 1, 2, 3, 1, 1 and 1, then the salary constraint, then the declaration of the
  binary variables.
\<close>

theorem position_constraints_fixed:
  assumes "map_of player_data ''QB'' = Some qb" and "map_of player_data ''RB'' = Some rb"
    and "map_of player_data ''WR'' = Some wr" and "map_of player_data ''TE'' = Some te"
    and "map_of player_data ''K'' = Some k" and "map_of player_data ''D'' = Some d"
  shows "write_lp_file py_str player_data salary_cap proj_jitter draws =
    ([objective_line py_str (objective_terms proj_jitter draws 0 (all_players player_data)),
      ''qb_lim: '' @ join '' + '' (map get_var_name qb) @ '' = 1;'',
      ''rb_lim: '' @ join '' + '' (map get_var_name rb) @ '' = 2;'',
      ''wr_lim: '' @ join '' + '' (map get_var_name wr) @ '' = 3;'',
      ''te_lim: '' @ join '' + '' (map get_var_name te) @ '' = 1;'',
      ''k_lim: '' @ join '' + '' (map get_var_name k) @ '' = 1;'',
      ''d_lim: '' @ join '' + '' (map get_var_name d) @ '' = 1;'',
      salary_line (all_players player_data) salary_cap,
      bin_line (map get_var_name (all_players player_data))], None)"
  using write_lp_file_lines [OF assms] by (simp add: position_line_def)

theorem position_constraints_fixed_witness:
  "write_lp_file sample_str
     [(''QB'', [\<lparr>name = ''Tom Brady'', position = ''QB'', salary = 7000, projection = 20\<rparr>,
               \<lparr>name = ''Cam Newton'', position = ''QB'', salary = 5000, projection = 20\<rparr>]),
      (''RB'', []),
      (''WR'', [\<lparr>name = ''D.J. Moore'', position = ''WR'', salary = 5000, projection = 3 / 2\<rparr>]),
      (''TE'', []), (''K'', []), (''D'', [])]
     60000 0 sample_draws =
    ([''max: 20.0 QB_TomBrady + 20.0 QB_CamNewton + 1.5 WR_DJMoore;'',
      ''qb_lim: QB_TomBrady + QB_CamNewton = 1;'',
      ''rb_lim:  = 2;'',
      ''wr_lim: WR_DJMoore = 3;'',
      ''te_lim:  = 1;'',
      ''k_lim:  = 1;'',
      ''d_lim:  = 1;'',
      ''sal_lim: 7000 QB_TomBrady + 5000 QB_CamNewton + 5000 WR_DJMoore <= 60000;'',
      ''bin QB_TomBrady QB_CamNewton WR_DJMoore;''], None)"
  using position_constraints_fixed [of
     "[(''QB'', [\<lparr>name = ''Tom Brady'', position = ''QB'', salary = 7000, projection = 20\<rparr>,
               \<lparr>name = ''Cam Newton'', position = ''QB'', salary = 5000, projection = 20\<rparr>]),
      (''RB'', []),
      (''WR'', [\<lparr>name = ''D.J. Moore'', position = ''WR'', salary = 5000, projection = 3 / 2\<rparr>]),
      (''TE'', []), (''K'', []), (''D'', [])]"
     "[\<lparr>name = ''Tom Brady'', position = ''QB'', salary = 7000, projection = 20\<rparr>,
       \<lparr>name = ''Cam Newton'', position = ''QB'', salary = 5000, projection = 20\<rparr>]"
     "[]" "[\<lparr>name = ''D.J. Moore'', position = ''WR'', salary = 5000, projection = 3 / 2\<rparr>]"
     "[]" "[]" "[]" sample_str 60000 0 sample_draws]
  by (simp add: all_players_def objective_line_def uniform_def get_var_name_def isalpha_def
      salary_line_def bin_line_def sample_str_def sample_draws_def str_int_def
      str_nat_digit str_nat_more)

text \<open>
  C4. With a jitter of 0 the coefficient of every player of the roster is exactly the
  player's projection, whatever \<^verbatim>\<open>random()\<close> returns, and the objective statement (the
  first line printed) is rendered from the projections.
\<close>

theorem objective_without_jitter:
  "map fst (objective_terms 0 draws 0 (all_players player_data))
     = map projection (all_players player_data)
   \<and> fst (write_lp_file py_str player_data salary_cap 0 draws) ! 0
     = ''max: ''
       @ join '' + '' (map (\<lambda>p. py_str (projection p) @ '' '' @ get_var_name p)
           (all_players player_data))
       @ '';''"
  by (simp add: write_lp_file_def objective_line_def objective_terms_no_jitter comp_def)

text \<open>
  C10. With a jitter of 0 the text that \<^verbatim>\<open>write_lp_file\<close> prints does not depend on the
  values that \<^verbatim>\<open>random()\<close> returns: two runs on the same roster and salary cap print the
  same lines and end the same way.
\<close>

theorem write_lp_file_deterministic:
  "write_lp_file py_str player_data salary_cap 0 draws
     = write_lp_file py_str player_data salary_cap 0 draws'"
  by (simp add: write_lp_file_def objective_terms_no_jitter)

text \<open>
  C9. For every roster whose keys are the six positions and whose players have one of
  the six positions (as every roster of the loader has, lemma
  \<open>load_player_data_positions\<close>), the filter loop returns a roster on which
  \<^verbatim>\<open>write_lp_file\<close> raises nothing and prints nine statements; the last of them is a
  declaration \<^verbatim>\<open>bin ...;\<close>, and the number of variable names that its text lists is the
  number of players, summed over the six positions, whose projection is at least the
  threshold.
\<close>

theorem bin_declaration_count:
  assumes "distinct (map fst player_data)" and "set (map fst player_data) = set position_keys"
    and "map_of player_data ''QB'' = Some qb" and "map_of player_data ''RB'' = Some rb"
    and "map_of player_data ''WR'' = Some wr" and "map_of player_data ''TE'' = Some te"
    and "map_of player_data ''K'' = Some k" and "map_of player_data ''D'' = Some d"
    and "\<forall>p\<in>set (all_players player_data). position p \<in> set position_keys"
  shows "\<exists>filtered stmts names.
      filter_step t player_data = Inr filtered
    \<and> write_lp_file py_str filtered salary_cap proj_jitter draws = (stmts, None)
    \<and> length stmts = 9
    \<and> declared_names (stmts ! 8) = Some names
    \<and> length names
        = length (filter (\<lambda>p. projection p \<ge> t) qb) + length (filter (\<lambda>p. projection p \<ge> t) rb)
          + length (filter (\<lambda>p. projection p \<ge> t) wr) + length (filter (\<lambda>p. projection p \<ge> t) te)
          + length (filter (\<lambda>p. projection p \<ge> t) k) + length (filter (\<lambda>p. projection p \<ge> t) d)"
proof -
  let ?P = "\<lambda>p. projection p \<ge> t"
  let ?pd' = "map (\<lambda>(k, ps). (k, filter ?P ps)) player_data"
  let ?names = "map get_var_name (all_players ?pd')"
  let ?stmts = "[objective_line py_str (objective_terms proj_jitter draws 0 (all_players ?pd')),
      position_line ''qb_lim'' ''1'' (filter ?P qb),
      position_line ''rb_lim'' ''2'' (filter ?P rb),
      position_line ''wr_lim'' ''3'' (filter ?P wr),
      position_line ''te_lim'' ''1'' (filter ?P te),
      position_line ''k_lim'' ''1'' (filter ?P k),
      position_line ''d_lim'' ''1'' (filter ?P d),
      salary_line (all_players ?pd') salary_cap,
      bin_line ?names]"
  have step: "filter_step t player_data = Inr ?pd'"
    unfolding filter_step_def using assms(1) by (rule filter_loop_all)
  have look: "map_of ?pd' a = Some (filter ?P ps)" if "map_of player_data a = Some ps" for a ps
    using that by (simp add: map_of_map)
  have out: "write_lp_file py_str ?pd' salary_cap proj_jitter draws = (?stmts, None)"
    by (rule write_lp_file_lines) (rule look, rule assms)+
  have nine: "length ?stmts = 9" by simp
  have last: "?stmts ! 8 = bin_line ?names" by simp
  have "\<forall>p\<in>set (all_players ?pd'). position p \<in> set position_keys"
    using assms(9) by (simp add: all_players_filtered)
  then have decl: "declared_names (?stmts ! 8) = Some ?names"
    unfolding last by (rule declared_names_bin_line)
  have "length ?names = length (filter ?P (all_players player_data))"
    by (simp add: all_players_filtered)
  also have "\<dots> = length (filter ?P qb) + length (filter ?P rb) + length (filter ?P wr)
       + length (filter ?P te) + length (filter ?P k) + length (filter ?P d)"
    by (rule survivors_six [OF assms(1-8)])
  finally have count: "length ?names = length (filter ?P qb) + length (filter ?P rb)
       + length (filter ?P wr) + length (filter ?P te) + length (filter ?P k)
       + length (filter ?P d)" .
  from step out nine decl count show ?thesis by blast
qed

theorem bin_declaration_count_witness:
  "filter_step (2718 / 1000)
     [(''QB'', [\<lparr>name = ''Tom Brady'', position = ''QB'', salary = 7000, projection = 20\<rparr>,
               \<lparr>name = ''Cam Newton'', position = ''QB'', salary = 5000, projection = 3 / 2\<rparr>]),
      (''RB'', []),
      (''WR'', [\<lparr>name = ''D.J. Moore'', position = ''WR'', salary = 5000, projection = 20\<rparr>]),
      (''TE'', []), (''K'', []), (''D'', [])]
   = Inr
     [(''QB'', [\<lparr>name = ''Tom Brady'', position = ''QB'', salary = 7000, projection = 20\<rparr>]),
      (''RB'', []),
      (''WR'', [\<lparr>name = ''D.J. Moore'', position = ''WR'', salary = 5000, projection = 20\<rparr>]),
      (''TE'', []), (''K'', []), (''D'', [])]
   \<and> fst (write_lp_file sample_str
     [(''QB'', [\<lparr>name = ''Tom Brady'', position = ''QB'', salary = 7000, projection = 20\<rparr>]),
      (''RB'', []),
      (''WR'', [\<lparr>name = ''D.J. Moore'', position = ''WR'', salary = 5000, projection = 20\<rparr>]),
      (''TE'', []), (''K'', []), (''D'', [])] 60000 0 sample_draws) ! 8
     = ''bin QB_TomBrady WR_DJMoore;''
   \<and> declared_names ''bin QB_TomBrady WR_DJMoore;'' = Some [''QB_TomBrady'', ''WR_DJMoore'']
   \<and> (\<exists>filtered stmts names.
      filter_step (2718 / 1000)
        [(''QB'', [\<lparr>name = ''Tom Brady'', position = ''QB'', salary = 7000, projection = 20\<rparr>,
                  \<lparr>name = ''Cam Newton'', position = ''QB'', salary = 5000, projection = 3 / 2\<rparr>]),
         (''RB'', []),
         (''WR'', [\<lparr>name = ''D.J. Moore'', position = ''WR'', salary = 5000, projection = 20\<rparr>]),
         (''TE'', []), (''K'', []), (''D'', [])] = Inr filtered
    \<and> write_lp_file sample_str filtered 60000 0 sample_draws = (stmts, None)
    \<and> length stmts = 9
    \<and> declared_names (stmts ! 8) = Some names
    \<and> length names = 1 + 0 + 1 + 0 + 0 + 0)"
proof -
  let ?roster =
    "[(''QB'', [\<lparr>name = ''Tom Brady'', position = ''QB'', salary = 7000, projection = 20\<rparr>,
               \<lparr>name = ''Cam Newton'', position = ''QB'', salary = 5000, projection = 3 / 2\<rparr>]),
      (''RB'', []),
      (''WR'', [\<lparr>name = ''D.J. Moore'', position = ''WR'', salary = 5000, projection = 20\<rparr>]),
      (''TE'', []), (''K'', []), (''D'', [])]"
  have keys: "distinct (map fst ?roster)" "set (map fst ?roster) = set position_keys"
    by (simp_all add: position_keys_def)
  have valid: "\<forall>p\<in>set (all_players ?roster). position p \<in> set position_keys"
    by (simp add: all_players_def position_keys_def)
  have general: "\<exists>filtered stmts names.
      filter_step (2718 / 1000) ?roster = Inr filtered
    \<and> write_lp_file sample_str filtered 60000 0 sample_draws = (stmts, None)
    \<and> length stmts = 9
    \<and> declared_names (stmts ! 8) = Some names
    \<and> length names = 1 + 0 + 1 + 0 + 0 + 0"
    using bin_declaration_count [OF keys _ _ _ _ _ _ valid,
        of "[\<lparr>name = ''Tom Brady'', position = ''QB'', salary = 7000, projection = 20\<rparr>,
             \<lparr>name = ''Cam Newton'', position = ''QB'', salary = 5000, projection = 3 / 2\<rparr>]"
           "[]" "[\<lparr>name = ''D.J. Moore'', position = ''WR'', salary = 5000, projection = 20\<rparr>]"
           "[]" "[]" "[]" "2718 / 1000" sample_str 60000 0 sample_draws]
    by simp
  have step: "filter_step (2718 / 1000) ?roster = Inr
     [(''QB'', [\<lparr>name = ''Tom Brady'', position = ''QB'', salary = 7000, projection = 20\<rparr>]),
      (''RB'', []),
      (''WR'', [\<lparr>name = ''D.J. Moore'', position = ''WR'', salary = 5000, projection = 20\<rparr>]),
      (''TE'', []), (''K'', []), (''D'', [])]"
    by (simp add: filter_step_def)
  have printed: "fst (write_lp_file sample_str
     [(''QB'', [\<lparr>name = ''Tom Brady'', position = ''QB'', salary = 7000, projection = 20\<rparr>]),
      (''RB'', []),
      (''WR'', [\<lparr>name = ''D.J. Moore'', position = ''WR'', salary = 5000, projection = 20\<rparr>]),
      (''TE'', []), (''K'', []), (''D'', [])] 60000 0 sample_draws) ! 8
     = ''bin QB_TomBrady WR_DJMoore;''"
    by (simp add: write_lp_file_def position_stmt_def all_players_def bin_line_def
        get_var_name_def isalpha_def)
  have names: "declared_names ''bin QB_TomBrady WR_DJMoore;'' = Some [''QB_TomBrady'', ''WR_DJMoore'']"
    by (simp add: declared_names_def)
  from step printed names general show ?thesis by blast
qed

text \<open>
  C1, as the script behaves. The script has no check for a position left without players.
  For every roster with the six position keys \<^verbatim>\<open>write_lp_file\<close> raises nothing and
  prints all nine statements, and the constraint of a position whose list is empty is
  printed as the equality with no term on its left-hand side
  (\<^verbatim>\<open>qb_lim:  = 1;\<close> for QB, and likewise for the other five).
\<close>

theorem write_lp_file_empty_position:
  assumes "map_of player_data ''QB'' = Some qb" and "map_of player_data ''RB'' = Some rb"
    and "map_of player_data ''WR'' = Some wr" and "map_of player_data ''TE'' = Some te"
    and "map_of player_data ''K'' = Some k" and "map_of player_data ''D'' = Some d"
  shows "\<exists>stmts. write_lp_file py_str player_data salary_cap proj_jitter draws = (stmts, None)
    \<and> length stmts = 9
    \<and> (qb = [] \<longrightarrow> stmts ! 1 = ''qb_lim:  = 1;'')
    \<and> (rb = [] \<longrightarrow> stmts ! 2 = ''rb_lim:  = 2;'')
    \<and> (wr = [] \<longrightarrow> stmts ! 3 = ''wr_lim:  = 3;'')
    \<and> (te = [] \<longrightarrow> stmts ! 4 = ''te_lim:  = 1;'')
    \<and> (k = [] \<longrightarrow> stmts ! 5 = ''k_lim:  = 1;'')
    \<and> (d = [] \<longrightarrow> stmts ! 6 = ''d_lim:  = 1;'')"
  unfolding write_lp_file_lines [OF assms] by (simp add: position_line_def)

theorem write_lp_file_empty_position_witness:
  "\<exists>stmts. write_lp_file sample_str
       [(''QB'', []), (''RB'', []),
        (''WR'', [\<lparr>name = ''D.J. Moore'', position = ''WR'', salary = 5000, projection = 20\<rparr>]),
        (''TE'', []), (''K'', []), (''D'', [])] 60000 0 sample_draws = (stmts, None)
    \<and> length stmts = 9
    \<and> stmts ! 1 = ''qb_lim:  = 1;''
    \<and> stmts ! 2 = ''rb_lim:  = 2;''
    \<and> stmts ! 4 = ''te_lim:  = 1;''
    \<and> stmts ! 5 = ''k_lim:  = 1;''
    \<and> stmts ! 6 = ''d_lim:  = 1;''"
  using write_lp_file_empty_position [of
       "[(''QB'', []), (''RB'', []),
        (''WR'', [\<lparr>name = ''D.J. Moore'', position = ''WR'', salary = 5000, projection = 20\<rparr>]),
        (''TE'', []), (''K'', []), (''D'', [])]"
       "[]" "[]" "[\<lparr>name = ''D.J. Moore'', position = ''WR'', salary = 5000, projection = 20\<rparr>]"
       "[]" "[]" "[]" sample_str 60000 0 sample_draws]
  by simp

text \<open>
  The run of the main block on a file with one quarterback whose projection 1.5 is below
  the default threshold 2.718: every position is empty after the filter loop, the run ends
  without an exception and the six constraints without terms are printed.
\<close>

theorem infeasible_roster_counterexample:
  "main sample_int sample_float sample_str position_keys
     [[''PLAYER'' \<mapsto> ''Cam Newton'', ''POSITION'' \<mapsto> ''QB'', ''SALARY'' \<mapsto> ''5000'',
       ''PROJECTION'' \<mapsto> ''1.5'']]
     60000 (2718 / 1000) 0 sample_draws
   = ([''max: ;'', ''qb_lim:  = 1;'', ''rb_lim:  = 2;'', ''wr_lim:  = 3;'', ''te_lim:  = 1;'',
       ''k_lim:  = 1;'', ''d_lim:  = 1;'', ''sal_lim:  <= 60000;'', ''bin ;''], None)"
  by (simp add: main_def load_player_data_def empty_roster_def position_keys_def
      player_datum_of_row_def append_player_def sample_int_def sample_float_def filter_step_def
      write_lp_file_def all_players_def objective_line_def position_stmt_def position_line_def
      salary_line_def bin_line_def str_int_def str_nat_digit str_nat_more)

text \<open>
  C2, as the script behaves. The script has no check for colliding variable names. Two
  different players of the roster with the same position, whose names have the same
  letters once everything else is removed, get the same variable name;
  \<^verbatim>\<open>write_lp_file\<close> raises nothing and prints all nine statements, and the text of the
  declaration of the binary variables lists one name per player of the roster, the shared
  name at least twice. (The players have one of the six positions, as every roster of the
  loader has.)
\<close>

theorem get_var_name_collision:
  assumes "map_of player_data ''QB'' = Some qb" and "map_of player_data ''RB'' = Some rb"
    and "map_of player_data ''WR'' = Some wr" and "map_of player_data ''TE'' = Some te"
    and "map_of player_data ''K'' = Some k" and "map_of player_data ''D'' = Some d"
    and "\<forall>r\<in>set (all_players player_data). position r \<in> set position_keys"
    and "p \<in> set (all_players player_data)" and "q \<in> set (all_players player_data)"
    and "p \<noteq> q" and "position p = position q"
    and "filter isalpha (name p) = filter isalpha (name q)"
  shows "get_var_name p = get_var_name q
    \<and> (\<exists>stmts names.
          write_lp_file py_str player_data salary_cap proj_jitter draws = (stmts, None)
        \<and> length stmts = 9
        \<and> declared_names (stmts ! 8) = Some names
        \<and> length names = length (all_players player_data)
        \<and> 2 \<le> count_list names (get_var_name p))"
proof -
  let ?names = "map get_var_name (all_players player_data)"
  let ?stmts = "[objective_line py_str (objective_terms proj_jitter draws 0 (all_players player_data)),
      position_line ''qb_lim'' ''1'' qb,
      position_line ''rb_lim'' ''2'' rb,
      position_line ''wr_lim'' ''3'' wr,
      position_line ''te_lim'' ''1'' te,
      position_line ''k_lim'' ''1'' k,
      position_line ''d_lim'' ''1'' d,
      salary_line (all_players player_data) salary_cap,
      bin_line ?names]"
  have same: "get_var_name p = get_var_name q"
    using assms(11,12) by (simp add: get_var_name_def)
  have out: "write_lp_file py_str player_data salary_cap proj_jitter draws = (?stmts, None)"
    by (rule write_lp_file_lines [OF assms(1-6)])
  have nine: "length ?stmts = 9" by simp
  have last: "?stmts ! 8 = bin_line ?names" by simp
  have decl: "declared_names (?stmts ! 8) = Some ?names"
    unfolding last using assms(7) by (rule declared_names_bin_line)
  have len: "length ?names = length (all_players player_data)" by simp
  have twice: "2 \<le> count_list ?names (get_var_name p)"
    using assms(8,9,10) same by (rule count_list_map_two)
  from out nine decl len twice have "\<exists>stmts names.
          write_lp_file py_str player_data salary_cap proj_jitter draws = (stmts, None)
        \<and> length stmts = 9
        \<and> declared_names (stmts ! 8) = Some names
        \<and> length names = length (all_players player_data)
        \<and> 2 \<le> count_list names (get_var_name p)"
    by blast
  with same show ?thesis by blast
qed

theorem get_var_name_collision_witness:
  "get_var_name \<lparr>name = ''D.J. Moore'', position = ''WR'', salary = 5000, projection = 20\<rparr>
     = ''WR_DJMoore''
   \<and> get_var_name \<lparr>name = ''DJ Moore'', position = ''WR'', salary = 7000, projection = 20\<rparr>
     = ''WR_DJMoore''
   \<and> fst (write_lp_file sample_str
         [(''QB'', []), (''RB'', []),
          (''WR'', [\<lparr>name = ''D.J. Moore'', position = ''WR'', salary = 5000, projection = 20\<rparr>,
                   \<lparr>name = ''DJ Moore'', position = ''WR'', salary = 7000, projection = 20\<rparr>]),
          (''TE'', []), (''K'', []), (''D'', [])] 60000 0 sample_draws) ! 8
     = ''bin WR_DJMoore WR_DJMoore;''
   \<and> declared_names ''bin WR_DJMoore WR_DJMoore;'' = Some [''WR_DJMoore'', ''WR_DJMoore'']
   \<and> (\<exists>stmts names.
          write_lp_file sample_str
            [(''QB'', []), (''RB'', []),
             (''WR'', [\<lparr>name = ''D.J. Moore'', position = ''WR'', salary = 5000, projection = 20\<rparr>,
                      \<lparr>name = ''DJ Moore'', position = ''WR'', salary = 7000, projection = 20\<rparr>]),
             (''TE'', []), (''K'', []), (''D'', [])] 60000 0 sample_draws = (stmts, None)
        \<and> length stmts = 9
        \<and> declared_names (stmts ! 8) = Some names
        \<and> length names = 2
        \<and> 2 \<le> count_list names ''WR_DJMoore'')"
proof -
  let ?p = "\<lparr>name = ''D.J. Moore'', position = ''WR'', salary = 5000, projection = 20\<rparr>"
  let ?q = "\<lparr>name = ''DJ Moore'', position = ''WR'', salary = 7000, projection = 20\<rparr>"
  let ?roster = "[(''QB'', []), (''RB'', []), (''WR'', [?p, ?q]), (''TE'', []), (''K'', []), (''D'', [])]"
  have np: "get_var_name ?p = ''WR_DJMoore''" and nq: "get_var_name ?q = ''WR_DJMoore''"
    by (simp_all add: get_var_name_def isalpha_def)
  have players: "all_players ?roster = [?p, ?q]"
    by (simp add: all_players_def)
  have valid: "\<forall>r\<in>set (all_players ?roster). position r \<in> set position_keys"
    by (simp add: players position_keys_def)
  have "?p \<in> set (all_players ?roster)" and "?q \<in> set (all_players ?roster)" and "?p \<noteq> ?q"
    and "position ?p = position ?q" and "filter isalpha (name ?p) = filter isalpha (name ?q)"
    by (simp_all add: players isalpha_def)
  from get_var_name_collision [OF _ _ _ _ _ _ valid this,
      of "[]" "[]" "[?p, ?q]" "[]" "[]" "[]" sample_str 60000 0 sample_draws]
  have general: "\<exists>stmts names.
          write_lp_file sample_str ?roster 60000 0 sample_draws = (stmts, None)
        \<and> length stmts = 9
        \<and> declared_names (stmts ! 8) = Some names
        \<and> length names = 2
        \<and> 2 \<le> count_list names ''WR_DJMoore''"
    by (simp add: players np nq numeral_2_eq_2)
  have printed: "fst (write_lp_file sample_str ?roster 60000 0 sample_draws) ! 8
     = ''bin WR_DJMoore WR_DJMoore;''"
    by (simp add: write_lp_file_def position_stmt_def players bin_line_def np nq)
  have names: "declared_names ''bin WR_DJMoore WR_DJMoore;'' = Some [''WR_DJMoore'', ''WR_DJMoore'']"
    by (simp add: declared_names_def)
  from np nq printed names general show ?thesis by blast
qed

text \<open>
  The run of the main block on a file with the wide receivers \<^verbatim>\<open>D.J. Moore\<close> and
  \<^verbatim>\<open>DJ Moore\<close>: it ends without an exception, and both players appear under the one name
  \<^verbatim>\<open>WR_DJMoore\<close> in every statement.
\<close>

theorem variable_name_collision_counterexample:
  "main sample_int sample_float sample_str position_keys
     [[''PLAYER'' \<mapsto> ''D.J. Moore'', ''POSITION'' \<mapsto> ''WR'', ''SALARY'' \<mapsto> ''5000'',
       ''PROJECTION'' \<mapsto> ''20.0''],
      [''PLAYER'' \<mapsto> ''DJ Moore'', ''POSITION'' \<mapsto> ''WR'', ''SALARY'' \<mapsto> ''7000'',
       ''PROJECTION'' \<mapsto> ''20.0'']]
     60000 (2718 / 1000) 0 sample_draws
   = ([''max: 20.0 WR_DJMoore + 20.0 WR_DJMoore;'', ''qb_lim:  = 1;'', ''rb_lim:  = 2;'',
       ''wr_lim: WR_DJMoore + WR_DJMoore = 3;'', ''te_lim:  = 1;'', ''k_lim:  = 1;'',
       ''d_lim:  = 1;'', ''sal_lim: 5000 WR_DJMoore + 7000 WR_DJMoore <= 60000;'',
       ''bin WR_DJMoore WR_DJMoore;''], None)"
  by (simp add: main_def load_player_data_def empty_roster_def position_keys_def
      player_datum_of_row_def append_player_def sample_int_def sample_float_def filter_step_def
      write_lp_file_def all_players_def objective_line_def position_stmt_def position_line_def
      salary_line_def bin_line_def str_int_def str_nat_digit str_nat_more
      uniform_def get_var_name_def isalpha_def sample_str_def sample_draws_def)

text \<open>
  C3, as the script behaves. For a jitter \<open>j > 0\<close> and draws of \<^verbatim>\<open>random()\<close> between 0
  and 1, the coefficient of a player with projection \<open>p\<close> lies between \<open>p * (1 - j)\<close> and
  \<open>p * (1 + j)\<close> when \<open>p\<close> is not negative, and between \<open>p * (1 + j)\<close> and
  \<open>p * (1 - j)\<close> when \<open>p\<close> is not positive: for a negative projection the two bounds
  change places.
\<close>

theorem objective_coefficient_range:
  assumes "0 < proj_jitter" and "\<forall>n. 0 \<le> draws n \<and> draws n \<le> 1"
    and "i < length (all_players player_data)"
  shows "(0 \<le> projection (all_players player_data ! i) \<longrightarrow>
            projection (all_players player_data ! i) * (1 - proj_jitter)
              \<le> fst (objective_terms proj_jitter draws 0 (all_players player_data) ! i)
          \<and> fst (objective_terms proj_jitter draws 0 (all_players player_data) ! i)
              \<le> projection (all_players player_data ! i) * (1 + proj_jitter))
       \<and> (projection (all_players player_data ! i) \<le> 0 \<longrightarrow>
            projection (all_players player_data ! i) * (1 + proj_jitter)
              \<le> fst (objective_terms proj_jitter draws 0 (all_players player_data) ! i)
          \<and> fst (objective_terms proj_jitter draws 0 (all_players player_data) ! i)
              \<le> projection (all_players player_data ! i) * (1 - proj_jitter))"
proof -
  let ?p = "projection (all_players player_data ! i)"
  let ?u = "uniform (1 - proj_jitter) (1 + proj_jitter) (draws i)"
  have c: "fst (objective_terms proj_jitter draws 0 (all_players player_data) ! i) = ?p * ?u"
    using assms(3) by (simp add: objective_terms_nth)
  have lo: "1 - proj_jitter \<le> ?u" and hi: "?u \<le> 1 + proj_jitter"
    using uniform_bounds [of proj_jitter "draws i"] assms(1,2) by auto
  have pos: "?p * (1 - proj_jitter) \<le> ?p * ?u \<and> ?p * ?u \<le> ?p * (1 + proj_jitter)" if "0 \<le> ?p"
    using that lo hi by (simp add: mult_left_mono)
  have neg: "?p * (1 + proj_jitter) \<le> ?p * ?u \<and> ?p * ?u \<le> ?p * (1 - proj_jitter)" if "?p \<le> 0"
    using that lo hi by (simp add: mult_left_mono_neg)
  show ?thesis unfolding c using pos neg by blast
qed

theorem objective_coefficient_range_witness:
  "fst (objective_terms (1 / 2) sample_draws 0
      (all_players [(''K'', [\<lparr>name = ''A'', position = ''K'', salary = 5000, projection = - 1\<rparr>,
                            \<lparr>name = ''B'', position = ''K'', salary = 5000, projection = 20\<rparr>])]) ! 0) = - 1
   \<and> - 1 * (1 + 1 / 2) \<le> (- 1 :: real) \<and> (- 1 :: real) \<le> - 1 * (1 - 1 / 2)
   \<and> 20 * (1 - 1 / 2)
       \<le> fst (objective_terms (1 / 2) sample_draws 0
           (all_players [(''K'', [\<lparr>name = ''A'', position = ''K'', salary = 5000, projection = - 1\<rparr>,
                            \<lparr>name = ''B'', position = ''K'', salary = 5000, projection = 20\<rparr>])]) ! 1)
   \<and> fst (objective_terms (1 / 2) sample_draws 0
           (all_players [(''K'', [\<lparr>name = ''A'', position = ''K'', salary = 5000, projection = - 1\<rparr>,
                            \<lparr>name = ''B'', position = ''K'', salary = 5000, projection = 20\<rparr>])]) ! 1)
       \<le> 20 * (1 + 1 / 2)"
  using objective_coefficient_range [of "1 / 2" sample_draws 1
      "[(''K'', [\<lparr>name = ''A'', position = ''K'', salary = 5000, projection = - 1\<rparr>,
                \<lparr>name = ''B'', position = ''K'', salary = 5000, projection = 20\<rparr>])]"]
  by (simp add: all_players_def uniform_def sample_draws_def)

text \<open>
  A kicker with projection \<open>-1\<close>, a jitter of one half and a draw of one half: the
  coefficient is \<open>-1\<close>, which is not between \<open>-1 * (1 - 1/2) = -1/2\<close> and
  \<open>-1 * (1 + 1/2) = -3/2\<close> in that order.
\<close>

theorem objective_coefficient_range_counterexample:
  "\<not> (projection \<lparr>name = ''A'', position = ''K'', salary = 5000, projection = - 1\<rparr> * (1 - 1 / 2)
        \<le> fst (objective_terms (1 / 2) sample_draws 0
              (all_players [(''K'', [\<lparr>name = ''A'', position = ''K'', salary = 5000, projection = - 1\<rparr>])]) ! 0)
      \<and> fst (objective_terms (1 / 2) sample_draws 0
              (all_players [(''K'', [\<lparr>name = ''A'', position = ''K'', salary = 5000, projection = - 1\<rparr>])]) ! 0)
        \<le> projection \<lparr>name = ''A'', position = ''K'', salary = 5000, projection = - 1\<rparr> * (1 + 1 / 2))"
  by (simp add: all_players_def uniform_def sample_draws_def)

end
